theory Spec2Isabelle
  imports Main
begin

section \<open>The matchmaker of the pixel-streaming case study\<close>

text \<open>
  The repository is a documentation site. The only code with behaviour of its own is the
  matchmaker shown in \<^verbatim>\<open>src/pages/index.js\<close> (class \<^verbatim>\<open>SessionManager\<close>, lines 266-308) and
  the session cleanup shown in \<^verbatim>\<open>docs/streaming/pixel-streaming-optimization.md\<close>
  (lines 157-172). Both are embedded here as they are written.

  JavaScript strings are modelled as \<^typ>\<open>string\<close>; a \<^typ>\<open>char\<close> stands for a UTF-16 code
  unit below 256. Numbers that the code handles are integers (clock readings in
  milliseconds, parsed load counters) and are modelled as \<^typ>\<open>int\<close>; a parsed load beyond
  \<open>2^53\<close> would be rounded by JavaScript, which changes no comparison with \<open>4\<close>.
\<close>

subsection \<open>Redis as the code uses it\<close>

text \<open>
  The code uses three commands: \<^verbatim>\<open>SMEMBERS cirrus:servers\<close>, \<^verbatim>\<open>GET cirrus:{id}:load\<close> and
  \<^verbatim>\<open>SETEX session:{userId} 1800 json\<close>. The state holds the reply of \<^verbatim>\<open>SMEMBERS\<close> as a
  list, in the order in which Redis returns the members (an order Redis does not
  specify), and the string keys with their value and time to live in seconds
  (\<open>None\<close>: no expiry). A string key of the code never is \<^verbatim>\<open>cirrus:servers\<close> (a load key
  ends in \<^verbatim>\<open>:load\<close>, a session key starts with \<^verbatim>\<open>session:\<close>), so the two parts of the key
  space are kept apart.
\<close>

record redis =
  servers :: "string list"
  strings :: "string \<rightharpoonup> string \<times> nat option"

definition smembers :: "redis \<Rightarrow> string \<Rightarrow> string list" where
  "smembers r k = (if k = ''cirrus:servers'' then servers r else [])"

definition get :: "redis \<Rightarrow> string \<Rightarrow> string option" where
  "get r k = map_option fst (strings r k)"

definition setex :: "string \<Rightarrow> nat \<Rightarrow> string \<Rightarrow> redis \<Rightarrow> redis" where
  "setex k seconds v r = r\<lparr>strings := (strings r)(k \<mapsto> (v, Some seconds))\<rparr>"

definition load_key :: "string \<Rightarrow> string" where
  "load_key sid = ''cirrus:'' @ sid @ '':load''"

definition session_key :: "string \<Rightarrow> string" where
  "session_key uid = ''session:'' @ uid"

subsection \<open>The built-in functions the code calls\<close>

text \<open>
  \<^verbatim>\<open>parseInt(x)\<close> with no radix: the argument is converted to a string (\<^verbatim>\<open>null\<close>, the reply
  of \<^verbatim>\<open>GET\<close> for a missing key, becomes \<^verbatim>\<open>"null"\<close>), leading white space is dropped, a sign
  is read, a prefix \<^verbatim>\<open>0x\<close> or \<^verbatim>\<open>0X\<close> selects radix 16, and the longest run of digits is
  the value. No digit gives \<^verbatim>\<open>NaN\<close>, here \<open>None\<close>.
\<close>

definition toString :: "string option \<Rightarrow> string" where
  "toString x = (case x of None \<Rightarrow> ''null'' | Some s \<Rightarrow> s)"

definition isWhiteSpace :: "char \<Rightarrow> bool" where
  "isWhiteSpace c = (of_char c \<in> {9, 10, 11, 12, 13, 32, 160 :: nat})"

definition digitValue :: "nat \<Rightarrow> char \<Rightarrow> nat option" where
  "digitValue R c =
     (let n = (of_char c :: nat);
          v = (if 48 \<le> n \<and> n \<le> 57 then Some (n - 48)
               else if 97 \<le> n \<and> n \<le> 122 then Some (n - 87)
               else if 65 \<le> n \<and> n \<le> 90 then Some (n - 55)
               else None)
      in case v of None \<Rightarrow> None | Some d \<Rightarrow> if d < R then Some d else None)"

definition digitsValue :: "nat \<Rightarrow> string \<Rightarrow> nat" where
  "digitsValue R Z = foldl (\<lambda>a c. a * R + (case digitValue R c of None \<Rightarrow> 0 | Some d \<Rightarrow> d)) 0 Z"

definition parseInt :: "string option \<Rightarrow> int option" where
  "parseInt x =
     (let S = dropWhile isWhiteSpace (toString x);
          sign = (if take 1 S = ''-'' then - 1 else 1 :: int);
          S1 = (if take 1 S = ''+'' \<or> take 1 S = ''-'' then drop 1 S else S);
          R = (if take 2 S1 = ''0x'' \<or> take 2 S1 = ''0X'' then 16 else 10 :: nat);
          S2 = (if R = 16 then drop 2 S1 else S1);
          Z = takeWhile (\<lambda>c. digitValue R c \<noteq> None) S2
      in if Z = [] then None else Some (sign * int (digitsValue R Z)))"

text \<open>
  \<^verbatim>\<open>JSON.stringify\<close> on the session object: the five properties in the order in which the
  object literal lists them, strings quoted with the escapes of the standard, numbers in
  decimal.
\<close>

definition digitChar :: "nat \<Rightarrow> char" where
  "digitChar d = ''0123456789'' ! d"

fun showNat :: "nat \<Rightarrow> string" where
  "showNat n = (if n < 10 then [digitChar n] else showNat (n div 10) @ [digitChar (n mod 10)])"

declare showNat.simps [simp del]

definition showInt :: "int \<Rightarrow> string" where
  "showInt i = (if i < 0 then ''-'' @ showNat (nat (- i)) else showNat (nat i))"

definition hexChar :: "nat \<Rightarrow> char" where
  "hexChar d = ''0123456789abcdef'' ! d"

definition escapeChar :: "char \<Rightarrow> string" where
  "escapeChar c =
     (let n = (of_char c :: nat) in
      if n = 8 then [CHR 0x5C, CHR ''b'']
      else if n = 9 then [CHR 0x5C, CHR ''t'']
      else if n = 10 then [CHR 0x5C, CHR ''n'']
      else if n = 12 then [CHR 0x5C, CHR ''f'']
      else if n = 13 then [CHR 0x5C, CHR ''r'']
      else if n = 34 then [CHR 0x5C, CHR 0x22]
      else if n = 92 then [CHR 0x5C, CHR 0x5C]
      else if n < 32 then [CHR 0x5C, CHR ''u'', CHR ''0'', CHR ''0'', hexChar (n div 16), hexChar (n mod 16)]
      else [c])"

definition quoteJSON :: "string \<Rightarrow> string" where
  "quoteJSON s = [CHR 0x22] @ concat (map escapeChar s) @ [CHR 0x22]"

subsection \<open>The session manager\<close>

record server =
  id_server :: string
  load :: int

record session =
  userId :: string
  serverId :: string
  subdomain :: string
  startTime :: int
  maxDuration :: int

definition stringify :: "session \<Rightarrow> string" where
  "stringify s =
     ''{'' @ quoteJSON ''userId'' @ '':'' @ quoteJSON (userId s) @ '','' @
     quoteJSON ''serverId'' @ '':'' @ quoteJSON (serverId s) @ '','' @
     quoteJSON ''subdomain'' @ '':'' @ quoteJSON (subdomain s) @ '','' @
     quoteJSON ''startTime'' @ '':'' @ showInt (startTime s) @ '','' @
     quoteJSON ''maxDuration'' @ '':'' @ showInt (maxDuration s) @ ''}''"

text \<open>
  What can go wrong in \<^verbatim>\<open>assignSession\<close>: a \<^verbatim>\<open>TypeError\<close> raised by the language, or
  whatever \<^verbatim>\<open>createNewServer\<close> throws. Failures of the connection to Redis are not
  modelled.
\<close>

datatype error = TypeError string | Thrown string

text \<open>
  \<^verbatim>\<open>findAvailableServer\<close>: the loop over the reply of \<^verbatim>\<open>SMEMBERS\<close>, returning at the first
  server whose parsed load is below 4. \<^verbatim>\<open>NaN < 4\<close> is false.
\<close>

fun scanServers :: "redis \<Rightarrow> string list \<Rightarrow> server option" where
  "scanServers r [] = None"
| "scanServers r (sid # rest) =
     (let reply = get r (load_key sid) in
      case parseInt reply of
        None \<Rightarrow> scanServers r rest
      | Some n \<Rightarrow>
          if n < 4 then Some \<lparr>id_server = sid, load = n\<rparr>
          else scanServers r rest)"

definition findAvailableServer :: "redis \<Rightarrow> server option" where
  "findAvailableServer r = scanServers r (smembers r ''cirrus:servers'')"

text \<open>
  \<^verbatim>\<open>assignSession\<close>. The class defines no method \<^verbatim>\<open>createNewServer\<close> (the comment calls it
  future work), so it is a parameter: \<open>None\<close> is the class as written, where
  \<^verbatim>\<open>this.createNewServer\<close> is \<^verbatim>\<open>undefined\<close> and the call raises a \<^verbatim>\<open>TypeError\<close>; \<open>Some f\<close> is
  a method supplied from outside, run on the Redis state. When \<open>f\<close> returns a server,
  the assignment to \<^verbatim>\<open>server\<close>, declared \<^verbatim>\<open>const\<close>, raises a \<^verbatim>\<open>TypeError\<close>.
  \<open>now1\<close> and \<open>now2\<close> are the two readings of \<^verbatim>\<open>Date.now()\<close>, for \<^verbatim>\<open>subdomain\<close> and for
  \<^verbatim>\<open>startTime\<close>.
\<close>

type_synonym provision = "redis \<Rightarrow> (error + server) \<times> redis"

definition assignSession ::
  "provision option \<Rightarrow> string \<Rightarrow> int \<Rightarrow> int \<Rightarrow> redis \<Rightarrow> (error + session) \<times> redis" where
  "assignSession createNewServer uid now1 now2 r =
     (case findAvailableServer r of
        None \<Rightarrow>
          (case createNewServer of
             None \<Rightarrow> (Inl (TypeError ''this.createNewServer is not a function''), r)
           | Some f \<Rightarrow>
               (case f r of
                  (Inl e, r1) \<Rightarrow> (Inl e, r1)
                | (Inr created, r1) \<Rightarrow> (Inl (TypeError ''Assignment to constant variable.''), r1)))
      | Some server \<Rightarrow>
          (let session = \<lparr>userId = uid,
                          serverId = id_server server,
                          subdomain = ''session-'' @ showInt now1 @ ''.ps.domain.com'',
                          startTime = now2,
                          maxDuration = 30 * 60 * 1000\<rparr>
           in (Inr session, setex (session_key uid) 1800 (stringify session) r)))"

subsection \<open>The session lifecycle\<close>

text \<open>
  The cleanup of \<^verbatim>\<open>pixel-streaming-optimization.md\<close>: a session object and a timer set to
  its \<^verbatim>\<open>maxDuration\<close> whose callback calls \<^verbatim>\<open>closeSession(session)\<close> and then
  \<^verbatim>\<open>releaseResources(session)\<close>. Neither function is defined anywhere in the repository;
  they are parameters acting on a state \<open>'w\<close> of the world outside, and either may
  throw. A throw of \<^verbatim>\<open>closeSession\<close> leaves the callback before \<^verbatim>\<open>releaseResources\<close> is
  called.
\<close>

record lifecycle_session =
  userId' :: string
  cirrusServer :: string
  ueInstance :: string
  startTime' :: int
  maxDuration' :: int

type_synonym 'w effect = "lifecycle_session \<Rightarrow> 'w \<Rightarrow> (error + unit) \<times> 'w"

definition cleanup :: "'w effect \<Rightarrow> 'w effect \<Rightarrow> lifecycle_session \<Rightarrow> 'w \<Rightarrow> (error + unit) \<times> 'w" where
  "cleanup closeSession releaseResources s w =
     (case closeSession s w of
        (Inl e, w1) \<Rightarrow> (Inl e, w1)
      | (Inr u, w1) \<Rightarrow> releaseResources s w1)"

text \<open>
  \<^verbatim>\<open>setTimeout(callback, delay)\<close> called at clock reading \<open>now\<close> (milliseconds) registers a
  timer that is due at \<open>now + delay\<close>; the delay of the code is the constant 1800000,
  inside the range where every host takes the delay as it is given. A turn of the event
  loop at clock reading \<open>now\<close> runs the callbacks of the timers that are due, earliest
  first, and drops them; an exception a callback throws is reported and the loop goes on.
\<close>

record 'w timer =
  due :: int
  callback :: "'w \<Rightarrow> (error + unit) \<times> 'w"

record 'w loop =
  timers :: "'w timer list"
  world :: 'w
  uncaught :: "error list"

definition setTimeout :: "('w \<Rightarrow> (error + unit) \<times> 'w) \<Rightarrow> int \<Rightarrow> int \<Rightarrow> 'w loop \<Rightarrow> 'w loop" where
  "setTimeout cb delay now L = L\<lparr>timers := timers L @ [\<lparr>due = now + delay, callback = cb\<rparr>]\<rparr>"

fun runCallbacks :: "'w timer list \<Rightarrow> 'w \<times> error list \<Rightarrow> 'w \<times> error list" where
  "runCallbacks [] st = st"
| "runCallbacks (t # ts) (w, errs) =
     (case callback t w of
        (Inl e, w1) \<Rightarrow> runCallbacks ts (w1, errs @ [e])
      | (Inr u, w1) \<Rightarrow> runCallbacks ts (w1, errs))"

definition turn :: "int \<Rightarrow> 'w loop \<Rightarrow> 'w loop" where
  "turn now L =
     (let ready = sort_key due (filter (\<lambda>t. due t \<le> now) (timers L));
          (w, errs) = runCallbacks ready (world L, uncaught L)
      in \<lparr>timers = filter (\<lambda>t. \<not> due t \<le> now) (timers L), world = w, uncaught = errs\<rparr>)"

text \<open>
  The snippet itself: the session literal, with \<open>now1\<close> the reading of \<^verbatim>\<open>Date.now()\<close>, and
  the call of \<^verbatim>\<open>setTimeout\<close> at clock reading \<open>now2\<close>.
\<close>

definition newSession :: "int \<Rightarrow> lifecycle_session" where
  "newSession now1 =
     \<lparr>userId' = ''user123'',
      cirrusServer = ''session-1.ps.domain.com'',
      ueInstance = ''container-abc'',
      startTime' = now1,
      maxDuration' = 30 * 60 * 1000\<rparr>"

definition startLifecycle :: "'w effect \<Rightarrow> 'w effect \<Rightarrow> int \<Rightarrow> int \<Rightarrow> 'w loop \<Rightarrow> 'w loop" where
  "startLifecycle closeSession releaseResources now1 now2 L =
     (let s = newSession now1
      in setTimeout (cleanup closeSession releaseResources s) (maxDuration' s) now2 L)"

text \<open>
  Two observers for the parameters, used at concrete inputs: functions that record that
  they were called, and a \<^verbatim>\<open>closeSession\<close> that throws.
\<close>

datatype call = CloseSession lifecycle_session | ReleaseResources lifecycle_session

definition logClose :: "call list effect" where
  "logClose s w = (Inr (), w @ [CloseSession s])"

definition logRelease :: "call list effect" where
  "logRelease s w = (Inr (), w @ [ReleaseResources s])"

definition failClose :: "call list effect" where
  "failClose s w = (Inl (Thrown ''closeSession failed''), w)"

text \<open>
  Two ways in which the parameters may act on a store that holds the record of the
  session and its capacity slot. In the first, \<^verbatim>\<open>closeSession\<close> removes the record and
  \<^verbatim>\<open>releaseResources\<close> frees the slot; in the second, \<^verbatim>\<open>closeSession\<close> only ends the
  stream and \<^verbatim>\<open>releaseResources\<close> frees the slot and then removes the record. The flag
  \<open>removedEarly\<close> records that a record was removed while its slot was still held.
\<close>

record backend =
  recordStored :: bool
  slotHeld :: bool
  removedEarly :: bool

definition removeRecord :: "backend \<Rightarrow> backend" where
  "removeRecord b = b\<lparr>recordStored := False, removedEarly := (removedEarly b \<or> slotHeld b)\<rparr>"

definition freeSlot :: "backend \<Rightarrow> backend" where
  "freeSlot b = b\<lparr>slotHeld := False\<rparr>"

definition closeRemoves :: "backend effect" where
  "closeRemoves s b = (Inr (), removeRecord b)"

definition releaseFrees :: "backend effect" where
  "releaseFrees s b = (Inr (), freeSlot b)"

definition closeEndsStream :: "backend effect" where
  "closeEndsStream s b = (Inr (), b)"

definition releaseFreesThenRemoves :: "backend effect" where
  "releaseFreesThenRemoves s b = (Inr (), removeRecord (freeSlot b))"

definition liveBackend :: backend where
  "liveBackend = \<lparr>recordStored = True, slotHeld = True, removedEarly = False\<rparr>"

text \<open>
  A \<^verbatim>\<open>createNewServer\<close> for concrete inputs: it registers a server \<^verbatim>\<open>B\<close> with load 0
  and returns it.
\<close>

definition provisionB :: provision where
  "provisionB r =
     (Inr \<lparr>id_server = ''B'', load = 0\<rparr>,
      r\<lparr>servers := servers r @ [''B''],
        strings := (strings r)(load_key ''B'' \<mapsto> (''0'', None))\<rparr>)"

subsection \<open>Notions used in the statements\<close>

text \<open>
  The load of a server as \<^verbatim>\<open>findAvailableServer\<close> reads it, and the test it applies.
\<close>

definition parsedLoad :: "redis \<Rightarrow> string \<Rightarrow> int option" where
  "parsedLoad r sid = parseInt (get r (load_key sid))"

definition available :: "redis \<Rightarrow> string \<Rightarrow> bool" where
  "available r sid = (case parsedLoad r sid of None \<Rightarrow> False | Some n \<Rightarrow> n < 4)"

subsection \<open>The release of a capacity slot\<close>

text \<open>
  Modelled from the spec: the operation \<^verbatim>\<open>release(serverId)\<close> of the Capacity Registry and
  the terminal-transition flag of the Lifecycle Supervisor. The repository has only the
  call \<^verbatim>\<open>releaseResources(session)\<close> in the cleanup above and no definition of it. The
  spec: \<^verbatim>\<open>release\<close> decrements the load, floored at 0, and reports a decrement below 0;
  a release is tied to the session's terminal-transition flag, which is checked and set
  exactly once, so that a release on a slot already released is a no-op. A server that
  is not registered is reported as unknown and the registry is left as it is.
\<close>

record render_server =
  currentLoad :: nat
  maxCapacity :: nat

type_synonym registry = "string \<rightharpoonup> render_server"

datatype release_report = Released | ReleaseIdempotencyViolation | UnknownServerError

definition release :: "string \<Rightarrow> registry \<Rightarrow> release_report \<times> registry" where
  "release sid reg =
     (case reg sid of
        None \<Rightarrow> (UnknownServerError, reg)
      | Some s \<Rightarrow>
          if currentLoad s = 0 then (ReleaseIdempotencyViolation, reg)
          else (Released, reg(sid \<mapsto> s\<lparr>currentLoad := currentLoad s - 1\<rparr>)))"

record terminated_session =
  assignedServer :: string
  slotReleased :: bool

definition releaseSlot :: "terminated_session \<Rightarrow> registry \<Rightarrow> terminated_session \<times> registry" where
  "releaseSlot ses reg =
     (if slotReleased ses then (ses, reg)
      else (ses\<lparr>slotReleased := True\<rparr>, snd (release (assignedServer ses) reg)))"

definition loadOf :: "registry \<Rightarrow> string \<Rightarrow> nat" where
  "loadOf reg sid = (case reg sid of None \<Rightarrow> 0 | Some s \<Rightarrow> currentLoad s)"

subsection \<open>States for concrete inputs\<close>

text \<open>
  One server with one slot left; one server that is full; the two registries of the
  load-balancing scenario (loads 2 and 1; a tie, listed in the order B, A); and a
  registry in which user \<^verbatim>\<open>u1\<close> already has a stored session.
\<close>

definition oneSlotLeft :: redis where
  "oneSlotLeft = \<lparr>servers = [''A''], strings = [load_key ''A'' \<mapsto> (''3'', None)]\<rparr>"

definition allFull :: redis where
  "allFull = \<lparr>servers = [''A''], strings = [load_key ''A'' \<mapsto> (''4'', None)]\<rparr>"

definition scenarioD :: redis where
  "scenarioD = \<lparr>servers = [''A'', ''B''],
     strings = [load_key ''A'' \<mapsto> (''2'', None), load_key ''B'' \<mapsto> (''1'', None)]\<rparr>"

definition scenarioD_tie :: redis where
  "scenarioD_tie = \<lparr>servers = [''B'', ''A''],
     strings = [load_key ''A'' \<mapsto> (''1'', None), load_key ''B'' \<mapsto> (''1'', None)]\<rparr>"

definition userPlaced :: redis where
  "userPlaced =
     setex (session_key ''u1'') 1800
       (stringify \<lparr>userId = ''u1'', serverId = ''A'', subdomain = ''session-0.ps.domain.com'',
                    startTime = 0, maxDuration = 1800000\<rparr>)
       \<lparr>servers = [''A''], strings = [load_key ''A'' \<mapsto> (''1'', None)]\<rparr>"

text \<open>A \<^verbatim>\<open>createNewServer\<close> that fails.\<close>

definition provisionUnavailable :: provision where
  "provisionUnavailable r = (Inl (Thrown ''provisioning unavailable''), r)"

text \<open>An event loop with no timer, and a registry with one server at load 2 of 4.\<close>

definition idleLoop :: "call list loop" where
  "idleLoop = \<lparr>timers = [], world = [], uncaught = []\<rparr>"

definition registryA :: registry where
  "registryA = [''A'' \<mapsto> \<lparr>currentLoad = 2, maxCapacity = 4\<rparr>]"

definition sessionOnA :: terminated_session where
  "sessionOnA = \<lparr>assignedServer = ''A'', slotReleased = False\<rparr>"

section \<open>Basic facts\<close>

subsection \<open>Keys and Redis commands\<close>

lemma load_key_neq_session_key: "load_key sid \<noteq> session_key uid"
  by (simp add: load_key_def session_key_def)

lemma load_key_inj: "(load_key a = load_key b) = (a = b)"
  by (simp add: load_key_def)

lemma session_key_inj: "(session_key u = session_key v) = (u = v)"
  by (simp add: session_key_def)

lemma get_setex: "get (setex k t v r) k' = (if k' = k then Some v else get r k')"
  by (simp add: get_def setex_def)

lemma strings_setex: "strings (setex k t v r) k' = (if k' = k then Some (v, Some t) else strings r k')"
  by (simp add: setex_def)

lemma servers_setex: "servers (setex k t v r) = servers r"
  by (simp add: setex_def)

lemma scanServers_cong:
  "(\<And>sid. sid \<in> set xs \<Longrightarrow> get r' (load_key sid) = get r (load_key sid)) \<Longrightarrow>
   scanServers r' xs = scanServers r xs"
  by (induction xs) (auto simp: Let_def split: option.splits)

lemma scanServers_None_iff:
  "(scanServers r xs = None) = (\<forall>sid\<in>set xs. \<not> available r sid)"
  by (induction xs) (auto simp: available_def parsedLoad_def Let_def split: option.splits)

lemma scanServers_first_fit:
  "(scanServers r xs = Some s) =
   (\<exists>pre post. xs = pre @ id_server s # post \<and> (\<forall>x\<in>set pre. \<not> available r x) \<and>
      parsedLoad r (id_server s) = Some (load s) \<and> load s < 4)"
proof (induction xs)
  case Nil
  show ?case by simp
next
  case (Cons x xs)
  show ?case
  proof (cases "available r x")
    case True
    then obtain n where n: "parsedLoad r x = Some n" "n < 4"
      by (auto simp: available_def split: option.splits)
    have l: "scanServers r (x # xs) = Some \<lparr>id_server = x, load = n\<rparr>"
      using n by (simp add: parsedLoad_def)
    show ?thesis
    proof
      assume "scanServers r (x # xs) = Some s"
      with l have s: "s = \<lparr>id_server = x, load = n\<rparr>" by simp
      have "x # xs = [] @ id_server s # xs" using s by simp
      then show "\<exists>pre post. x # xs = pre @ id_server s # post \<and> (\<forall>x\<in>set pre. \<not> available r x) \<and>
          parsedLoad r (id_server s) = Some (load s) \<and> load s < 4"
        using n s by fastforce
    next
      assume "\<exists>pre post. x # xs = pre @ id_server s # post \<and> (\<forall>x\<in>set pre. \<not> available r x) \<and>
          parsedLoad r (id_server s) = Some (load s) \<and> load s < 4"
      then obtain pre post where p: "x # xs = pre @ id_server s # post"
        "\<forall>x\<in>set pre. \<not> available r x" "parsedLoad r (id_server s) = Some (load s)" by blast
      have "pre = []"
      proof (cases pre)
        case Nil then show ?thesis .
      next
        case (Cons y ys)
        with p(1) have "y = x" by simp
        with p(2) Cons True show ?thesis by simp
      qed
      with p have "id_server s = x" "load s = n" using n by simp_all
      then show "scanServers r (x # xs) = Some s" using l by simp
    qed
  next
    case False
    then have l: "scanServers r (x # xs) = scanServers r xs"
      by (auto simp: available_def parsedLoad_def split: option.splits)
    show ?thesis
    proof
      assume "scanServers r (x # xs) = Some s"
      with l Cons.IH obtain pre post where p: "xs = pre @ id_server s # post"
        "\<forall>x\<in>set pre. \<not> available r x" "parsedLoad r (id_server s) = Some (load s)" "load s < 4"
        by auto
      have "x # xs = (x # pre) @ id_server s # post" using p(1) by simp
      moreover have "\<forall>y\<in>set (x # pre). \<not> available r y" using p(2) False by simp
      ultimately show "\<exists>pre post. x # xs = pre @ id_server s # post \<and> (\<forall>x\<in>set pre. \<not> available r x) \<and>
          parsedLoad r (id_server s) = Some (load s) \<and> load s < 4"
        using p(3,4) by blast
    next
      assume "\<exists>pre post. x # xs = pre @ id_server s # post \<and> (\<forall>x\<in>set pre. \<not> available r x) \<and>
          parsedLoad r (id_server s) = Some (load s) \<and> load s < 4"
      then obtain pre post where p: "x # xs = pre @ id_server s # post"
        "\<forall>x\<in>set pre. \<not> available r x" "parsedLoad r (id_server s) = Some (load s)" "load s < 4"
        by blast
      have av: "available r (id_server s)" using p(3,4) by (simp add: available_def)
      have "pre \<noteq> []"
      proof
        assume "pre = []"
        with p(1) have "x = id_server s" by simp
        with av False show False by simp
      qed
      then obtain ys where ys: "pre = x # ys" using p(1) by (cases pre) auto
      then have "xs = ys @ id_server s # post" "\<forall>x\<in>set ys. \<not> available r x" using p(1,2) by simp_all
      then have "scanServers r xs = Some s" using Cons.IH p(3,4) by blast
      then show "scanServers r (x # xs) = Some s" using l by simp
    qed
  qed
qed

lemma findAvailableServer_setex_session:
  "findAvailableServer (setex (session_key u) t v r) = findAvailableServer r"
  by (simp add: findAvailableServer_def smembers_def servers_setex,
      rule scanServers_cong, simp add: get_setex load_key_neq_session_key)

lemma findAvailableServer_strings_session:
  "findAvailableServer (r\<lparr>strings := (strings r)(session_key v := e)\<rparr>) = findAvailableServer r"
  by (simp add: findAvailableServer_def smembers_def,
      rule scanServers_cong, simp add: get_def load_key_neq_session_key)

lemma assignSession_found:
  "findAvailableServer r = Some s \<Longrightarrow>
   assignSession cns u t1 t2 r =
     (Inr \<lparr>userId = u, serverId = id_server s,
           subdomain = ''session-'' @ showInt t1 @ ''.ps.domain.com'',
           startTime = t2, maxDuration = 1800000\<rparr>,
      setex (session_key u) 1800
        (stringify \<lparr>userId = u, serverId = id_server s,
           subdomain = ''session-'' @ showInt t1 @ ''.ps.domain.com'',
           startTime = t2, maxDuration = 1800000\<rparr>) r)"
  by (simp add: assignSession_def Let_def)

lemma assignSession_Inr_found:
  "assignSession cns u t1 t2 r = (Inr ses, r') \<Longrightarrow>
   \<exists>s. findAvailableServer r = Some s \<and> serverId ses = id_server s"
  by (auto simp: assignSession_def Let_def split: option.splits sum.splits prod.splits)

lemma assignSession_unavailable_None:
  "findAvailableServer r = None \<Longrightarrow>
   assignSession None u t1 t2 r = (Inl (TypeError ''this.createNewServer is not a function''), r)"
  by (simp add: assignSession_def)

lemma assignSession_frame:
  assumes "cns = None \<or> findAvailableServer r \<noteq> None"
  shows "servers (snd (assignSession cns u t1 t2 r)) = servers r"
    and "k \<noteq> session_key u \<Longrightarrow> strings (snd (assignSession cns u t1 t2 r)) k = strings r k"
proof -
  show "servers (snd (assignSession cns u t1 t2 r)) = servers r"
  proof (cases "findAvailableServer r")
    case None
    with assms show ?thesis by (simp add: assignSession_unavailable_None)
  next
    case (Some s)
    then show ?thesis by (simp add: assignSession_found servers_setex)
  qed
  show "strings (snd (assignSession cns u t1 t2 r)) k = strings r k" if "k \<noteq> session_key u"
  proof (cases "findAvailableServer r")
    case None
    with assms show ?thesis by (simp add: assignSession_unavailable_None)
  next
    case (Some s)
    then show ?thesis using that by (simp add: assignSession_found strings_setex)
  qed
qed

lemma parsedLoad_frame:
  "strings r' (load_key sid) = strings r (load_key sid) \<Longrightarrow> parsedLoad r' sid = parsedLoad r sid"
  by (simp add: parsedLoad_def get_def)

subsection \<open>Evaluation at concrete inputs\<close>

lemma parseInt_0: "parseInt (Some ''0'') = Some 0"
  by (simp add: parseInt_def toString_def isWhiteSpace_def digitValue_def digitsValue_def)
lemma parseInt_1: "parseInt (Some ''1'') = Some 1"
  by (simp add: parseInt_def toString_def isWhiteSpace_def digitValue_def digitsValue_def)
lemma parseInt_2: "parseInt (Some ''2'') = Some 2"
  by (simp add: parseInt_def toString_def isWhiteSpace_def digitValue_def digitsValue_def)
lemma parseInt_3: "parseInt (Some ''3'') = Some 3"
  by (simp add: parseInt_def toString_def isWhiteSpace_def digitValue_def digitsValue_def)
lemma parseInt_4: "parseInt (Some ''4'') = Some 4"
  by (simp add: parseInt_def toString_def isWhiteSpace_def digitValue_def digitsValue_def)
lemma parseInt_null: "parseInt None = None"
  by (simp add: parseInt_def toString_def isWhiteSpace_def digitValue_def digitsValue_def)

lemmas parse_simps = parseInt_0 parseInt_1 parseInt_2 parseInt_3 parseInt_4 parseInt_null

lemma showInt_0: "showInt 0 = ''0''"
  by (simp add: showInt_def showNat.simps digitChar_def)

lemma showInt_5: "showInt 5 = ''5''"
  by (simp add: showInt_def showNat.simps digitChar_def)

lemma find_oneSlotLeft: "findAvailableServer oneSlotLeft = Some \<lparr>id_server = ''A'', load = 3\<rparr>"
  by (simp add: findAvailableServer_def smembers_def get_def oneSlotLeft_def parse_simps)

lemma find_allFull: "findAvailableServer allFull = None"
  by (simp add: findAvailableServer_def smembers_def get_def allFull_def parse_simps)

lemma find_scenarioD: "findAvailableServer scenarioD = Some \<lparr>id_server = ''A'', load = 2\<rparr>"
  by (simp add: findAvailableServer_def smembers_def get_def scenarioD_def load_key_def parse_simps)

lemma find_scenarioD_tie: "findAvailableServer scenarioD_tie = Some \<lparr>id_server = ''B'', load = 1\<rparr>"
  by (simp add: findAvailableServer_def smembers_def get_def scenarioD_tie_def load_key_def parse_simps)

lemma find_userPlaced: "findAvailableServer userPlaced = Some \<lparr>id_server = ''A'', load = 1\<rparr>"
  by (simp add: userPlaced_def findAvailableServer_setex_session)
     (simp add: findAvailableServer_def smembers_def get_def parse_simps)

lemma assign_oneSlotLeft:
  "assignSession cns ''u1'' 0 0 oneSlotLeft =
     (Inr \<lparr>userId = ''u1'', serverId = ''A'', subdomain = ''session-0.ps.domain.com'',
           startTime = 0, maxDuration = 1800000\<rparr>,
      setex (session_key ''u1'') 1800
        (stringify \<lparr>userId = ''u1'', serverId = ''A'', subdomain = ''session-0.ps.domain.com'',
           startTime = 0, maxDuration = 1800000\<rparr>) oneSlotLeft)"
  by (simp add: assignSession_found [OF find_oneSlotLeft] showInt_0)

lemma parsedLoad_oneSlotLeft: "parsedLoad oneSlotLeft ''A'' = Some 3"
  by (simp add: parsedLoad_def get_def oneSlotLeft_def parse_simps)

lemma parsedLoad_setex_session:
  "parsedLoad (setex (session_key u) t v r) sid = parsedLoad r sid"
  by (simp add: parsedLoad_def get_setex load_key_neq_session_key)

lemma assignSession_Inr_state:
  "assignSession cns u t1 t2 r = (Inr ses, r') \<Longrightarrow>
   r' = setex (session_key u) 1800 (stringify ses) r \<and>
   userId ses = u \<and> startTime ses = t2 \<and> maxDuration ses = 1800000"
  by (auto simp: assignSession_def Let_def split: option.splits sum.splits prod.splits)

lemma assign_allFull_None:
  "assignSession None u t1 t2 allFull =
     (Inl (TypeError ''this.createNewServer is not a function''), allFull)"
  by (simp add: assignSession_unavailable_None find_allFull)

lemma assign_userPlaced:
  "assignSession cns ''u1'' 5 5 userPlaced =
     (Inr \<lparr>userId = ''u1'', serverId = ''A'', subdomain = ''session-5.ps.domain.com'',
           startTime = 5, maxDuration = 1800000\<rparr>,
      setex (session_key ''u1'') 1800
        (stringify \<lparr>userId = ''u1'', serverId = ''A'', subdomain = ''session-5.ps.domain.com'',
           startTime = 5, maxDuration = 1800000\<rparr>) userPlaced)"
  by (simp add: assignSession_found [OF find_userPlaced] showInt_5)

lemma assignSession_Inl_unavailable:
  "fst (assignSession cns u t1 t2 r) = Inl e \<Longrightarrow> findAvailableServer r = None"
  by (cases "findAvailableServer r") (simp_all add: assignSession_found)

lemma find_after_provisionB:
  "findAvailableServer (snd (provisionB allFull)) = Some \<lparr>id_server = ''B'', load = 0\<rparr>"
  by (simp add: provisionB_def findAvailableServer_def smembers_def get_def allFull_def
      load_key_inj parse_simps)

subsection \<open>The timer of the cleanup\<close>

lemma turn_before_due:
  "timers L = [] \<Longrightarrow> now < now2 + delay \<Longrightarrow> turn now (setTimeout cb delay now2 L) = setTimeout cb delay now2 L"
  by (simp add: turn_def setTimeout_def)

lemma turn_when_due:
  "timers L = [] \<Longrightarrow> now2 + delay \<le> now \<Longrightarrow>
   world (turn now (setTimeout cb delay now2 L)) = snd (cb (world L)) \<and>
   timers (turn now (setTimeout cb delay now2 L)) = []"
  by (cases "cb (world L)") (auto simp: turn_def setTimeout_def split: sum.splits)

lemma turn_no_timers: "timers L = [] \<Longrightarrow> turn now L = L"
  by (simp add: turn_def)

lemma cleanup_logged:
  "cleanup logClose logRelease s tr = (Inr (), tr @ [CloseSession s, ReleaseResources s])"
  by (simp add: cleanup_def logClose_def logRelease_def)

lemma cleanup_failClose:
  "cleanup failClose rl s tr = (Inl (Thrown ''closeSession failed''), tr)"
  by (simp add: cleanup_def failClose_def)

text \<open>
  What the code fixes about the cleanup is the order of its two calls, and that a throw
  of the first skips the second.
\<close>

lemma cleanup_steps:
  "(closeSession s w = (Inl e, w1) \<longrightarrow> cleanup closeSession releaseResources s w = (Inl e, w1)) \<and>
   (closeSession s w = (Inr x, w1) \<longrightarrow>
      cleanup closeSession releaseResources s w = releaseResources s w1)"
  by (simp add: cleanup_def)

text \<open>
  What it leaves open is which of the two calls, if either, removes the record of the
  session and which frees its slot: neither function is defined in the repository. The
  same cleanup removes the record while the slot is held under the one supply, and
  frees the slot before the record goes under the other.
\<close>

lemma cleanup_order_open:
  "snd (cleanup closeRemoves releaseFrees s liveBackend) =
     \<lparr>recordStored = False, slotHeld = False, removedEarly = True\<rparr> \<and>
   snd (cleanup closeEndsStream releaseFreesThenRemoves s liveBackend) =
     \<lparr>recordStored = False, slotHeld = False, removedEarly = False\<rparr>"
  by (simp add: cleanup_def closeRemoves_def releaseFrees_def closeEndsStream_def
      releaseFreesThenRemoves_def removeRecord_def freeSlot_def liveBackend_def)

subsection \<open>The registry\<close>

lemma release_alone_decrements_twice:
  "loadOf (snd (release ''A'' registryA)) ''A'' = 1 \<and>
   loadOf (snd (release ''A'' (snd (release ''A'' registryA)))) ''A'' = 0"
  by (simp add: release_def loadOf_def registryA_def)

section \<open>The claims\<close>

subsection \<open>Server selection\<close>

text \<open>
  Claim C3, as amended. \<^verbatim>\<open>findAvailableServer\<close> is first-fit: it returns the first server,
  in the order in which \<^verbatim>\<open>SMEMBERS\<close> lists them, whose stored load parses to a number
  below 4, together with that number, and it returns \<^verbatim>\<open>null\<close> exactly when no listed server
  has such a load. It compares no loads with each other, knows no health status and
  breaks no tie by server ID.
\<close>

theorem findAvailableServer_first_fit:
  "((findAvailableServer r = None) = (\<forall>sid\<in>set (servers r). \<not> available r sid)) \<and>
   ((findAvailableServer r = Some s) =
      (\<exists>pre post. servers r = pre @ id_server s # post \<and> (\<forall>x\<in>set pre. \<not> available r x) \<and>
         parsedLoad r (id_server s) = Some (load s) \<and> load s < 4))"
  unfolding findAvailableServer_def smembers_def
  using scanServers_None_iff [of r "servers r"] scanServers_first_fit [of r "servers r" s]
  by simp

text \<open>
  The characterisation at the registry with loads 2 and 1, where \<^verbatim>\<open>A\<close> is found, and at
  the full registry, where nothing is.
\<close>

theorem findAvailableServer_first_fit_witness:
  "servers scenarioD = [] @ id_server \<lparr>id_server = ''A'', load = 2\<rparr> # [''B''] \<and>
   parsedLoad scenarioD ''A'' = Some 2 \<and>
   findAvailableServer scenarioD = Some \<lparr>id_server = ''A'', load = 2\<rparr> \<and>
   \<not> (\<forall>sid\<in>set (servers scenarioD). \<not> available scenarioD sid) \<and>
   \<not> available allFull ''A'' \<and>
   findAvailableServer allFull = None"
proof -
  have a: "servers scenarioD = [] @ id_server \<lparr>id_server = ''A'', load = 2\<rparr> # [''B'']"
    by (simp add: scenarioD_def)
  have b: "parsedLoad scenarioD ''A'' = Some 2"
    by (simp add: parsedLoad_def get_def scenarioD_def load_key_inj parse_simps)
  have c: "\<forall>sid\<in>set (servers allFull). \<not> available allFull sid"
    by (simp add: available_def parsedLoad_def get_def allFull_def parse_simps)
  have d: "findAvailableServer scenarioD = Some \<lparr>id_server = ''A'', load = 2\<rparr>"
  proof -
    have "\<exists>pre post. servers scenarioD = pre @ id_server \<lparr>id_server = ''A'', load = 2\<rparr> # post \<and>
        (\<forall>x\<in>set pre. \<not> available scenarioD x) \<and>
        parsedLoad scenarioD (id_server \<lparr>id_server = ''A'', load = 2\<rparr>) =
          Some (load \<lparr>id_server = ''A'', load = 2\<rparr>) \<and>
        load \<lparr>id_server = ''A'', load = 2\<rparr> < 4"
      using a b by (intro exI [of _ "[]"] exI [of _ "[''B'']"]) simp
    then show ?thesis
      using findAvailableServer_first_fit [of scenarioD "\<lparr>id_server = ''A'', load = 2\<rparr>"] by blast
  qed
  have e: "findAvailableServer allFull = None"
    using findAvailableServer_first_fit [of allFull] c by simp
  have f: "\<not> (\<forall>sid\<in>set (servers scenarioD). \<not> available scenarioD sid)"
    using findAvailableServer_first_fit [of scenarioD] d by simp
  have g: "\<not> available allFull ''A''"
    using c by (simp add: allFull_def)
  show ?thesis using a b d e f g by simp
qed

text \<open>
  Claim C3 as the spec states it fails: with A at load 2 and B at load 1 the code
  returns A, not the less loaded B; with both at load 1 and B listed first it returns
  B, not the lower ID A.
\<close>

theorem findAvailableServer_not_least_loaded:
  "findAvailableServer scenarioD = Some \<lparr>id_server = ''A'', load = 2\<rparr> \<and>
   parsedLoad scenarioD ''B'' = Some 1 \<and>
   findAvailableServer scenarioD_tie = Some \<lparr>id_server = ''B'', load = 1\<rparr> \<and>
   parsedLoad scenarioD_tie ''A'' = Some 1"
  by (simp add: find_scenarioD find_scenarioD_tie)
     (simp add: parsedLoad_def get_def scenarioD_def scenarioD_tie_def load_key_def parse_simps)

subsection \<open>What a placement changes\<close>

text \<open>
  Claim C9. A call of \<^verbatim>\<open>assignSession\<close>, successful or not, leaves the set
  \<^verbatim>\<open>cirrus:servers\<close> and every key \<^verbatim>\<open>cirrus:{serverId}:load\<close> as it found them, value and
  expiry: placement reads the load and never increments it. This holds for the class as
  written (no \<^verbatim>\<open>createNewServer\<close>) on every path, and on the path where a server is
  found whatever \<^verbatim>\<open>createNewServer\<close> is; what a \<^verbatim>\<open>createNewServer\<close> supplied from outside
  does to Redis is not an effect of \<^verbatim>\<open>assignSession\<close>.
\<close>

theorem assignSession_leaves_loads:
  "cns = None \<or> findAvailableServer r \<noteq> None \<Longrightarrow>
   servers (snd (assignSession cns u t1 t2 r)) = servers r \<and>
   (\<forall>sid. strings (snd (assignSession cns u t1 t2 r)) (load_key sid) = strings r (load_key sid))"
  by (simp add: assignSession_frame load_key_neq_session_key)

text \<open>
  The frame at a successful placement (one slot left) and at a failed one (server full).
\<close>

theorem assignSession_leaves_loads_witness:
  "findAvailableServer oneSlotLeft \<noteq> None \<and>
   servers (snd (assignSession None ''u1'' 0 0 oneSlotLeft)) = [''A''] \<and>
   strings (snd (assignSession None ''u1'' 0 0 oneSlotLeft)) (load_key ''A'') = Some (''3'', None) \<and>
   findAvailableServer allFull = None \<and>
   servers (snd (assignSession None ''u1'' 0 0 allFull)) = [''A''] \<and>
   strings (snd (assignSession None ''u1'' 0 0 allFull)) (load_key ''A'') = Some (''4'', None)"
proof -
  have a: "findAvailableServer oneSlotLeft \<noteq> None" by (simp add: find_oneSlotLeft)
  have b: "servers oneSlotLeft = [''A'']" "strings oneSlotLeft (load_key ''A'') = Some (''3'', None)"
    by (simp_all add: oneSlotLeft_def)
  have c: "servers allFull = [''A'']" "strings allFull (load_key ''A'') = Some (''4'', None)"
    by (simp_all add: allFull_def)
  show ?thesis
    using assignSession_leaves_loads [of None oneSlotLeft "''u1''" 0 0]
      assignSession_leaves_loads [of None allFull "''u1''" 0 0] a b c find_allFull
    by simp
qed

subsection \<open>Capacity\<close>

text \<open>
  Claim C1, as amended. \<^verbatim>\<open>assignSession\<close> never writes a load counter, so the load that
  \<^verbatim>\<open>findAvailableServer\<close> reads for any server is the same after a placement as before
  it, and a bound \<open>0 \<le> load \<le> 4\<close> that holds before holds after. The server of a
  successful placement had a parsed load below 4 when it was read. Nothing is reserved:
  on the state a successful placement leaves, every further placement succeeds and is
  assigned the same server.
\<close>

theorem assignSession_reserves_nothing:
  "(cns = None \<or> findAvailableServer r \<noteq> None \<longrightarrow>
      (\<forall>sid. parsedLoad (snd (assignSession cns u t1 t2 r)) sid = parsedLoad r sid)) \<and>
   (assignSession cns u t1 t2 r = (Inr ses, r') \<longrightarrow>
      (\<exists>n. parsedLoad r (serverId ses) = Some n \<and> n < 4) \<and>
      (\<forall>cns' v t3 t4. \<exists>ses' r''. assignSession cns' v t3 t4 r' = (Inr ses', r'') \<and>
          serverId ses' = serverId ses))"
proof (intro conjI impI)
  assume c: "cns = None \<or> findAvailableServer r \<noteq> None"
  show "\<forall>sid. parsedLoad (snd (assignSession cns u t1 t2 r)) sid = parsedLoad r sid"
  proof
    fix sid
    have "strings (snd (assignSession cns u t1 t2 r)) (load_key sid) = strings r (load_key sid)"
      using c by (rule assignSession_frame(2)) (rule load_key_neq_session_key)
    then show "parsedLoad (snd (assignSession cns u t1 t2 r)) sid = parsedLoad r sid"
      by (rule parsedLoad_frame)
  qed
next
  assume h: "assignSession cns u t1 t2 r = (Inr ses, r')"
  then obtain s where s: "findAvailableServer r = Some s" "serverId ses = id_server s"
    using assignSession_Inr_found by blast
  from s(1) have "parsedLoad r (id_server s) = Some (load s) \<and> load s < 4"
    using scanServers_first_fit [of r "servers r" s]
    by (auto simp: findAvailableServer_def smembers_def)
  then show "\<exists>n. parsedLoad r (serverId ses) = Some n \<and> n < 4"
    using s(2) by auto
  from h have r': "r' = setex (session_key u) 1800 (stringify ses) r"
    by (simp add: assignSession_Inr_state)
  then have f: "findAvailableServer r' = Some s"
    using s(1) by (simp add: findAvailableServer_setex_session)
  show "\<forall>cns' v t3 t4. \<exists>ses' r''. assignSession cns' v t3 t4 r' = (Inr ses', r'') \<and>
          serverId ses' = serverId ses"
    using s(2) by (simp add: assignSession_found [OF f])
qed

text \<open>
  At the server with one slot left: the placement of \<^verbatim>\<open>u1\<close> succeeds, the load still
  reads 3, and \<^verbatim>\<open>u2\<close> is placed on the same server.
\<close>

theorem assignSession_reserves_nothing_witness:
  "assignSession None ''u1'' 0 0 oneSlotLeft =
     (Inr \<lparr>userId = ''u1'', serverId = ''A'', subdomain = ''session-0.ps.domain.com'',
           startTime = 0, maxDuration = 1800000\<rparr>,
      setex (session_key ''u1'') 1800
        (stringify \<lparr>userId = ''u1'', serverId = ''A'', subdomain = ''session-0.ps.domain.com'',
           startTime = 0, maxDuration = 1800000\<rparr>) oneSlotLeft) \<and>
   parsedLoad (snd (assignSession None ''u1'' 0 0 oneSlotLeft)) ''A'' = Some 3 \<and>
   (\<exists>n. parsedLoad oneSlotLeft ''A'' = Some n \<and> n < 4) \<and>
   (\<exists>ses' r''. assignSession None ''u2'' 1 1
        (setex (session_key ''u1'') 1800
          (stringify \<lparr>userId = ''u1'', serverId = ''A'', subdomain = ''session-0.ps.domain.com'',
             startTime = 0, maxDuration = 1800000\<rparr>) oneSlotLeft) = (Inr ses', r'') \<and>
      serverId ses' = ''A'')"
proof -
  note h = assign_oneSlotLeft [of None]
  note t = assignSession_reserves_nothing [of None oneSlotLeft "''u1''" 0 0 _ _, unfolded h]
  have 1: "parsedLoad (snd (assignSession None ''u1'' 0 0 oneSlotLeft)) ''A'' = Some 3"
    using t h parsedLoad_oneSlotLeft by simp
  have 2: "\<exists>n. parsedLoad oneSlotLeft ''A'' = Some n \<and> n < 4"
    using t by fastforce
  have 3: "\<exists>ses' r''. assignSession None ''u2'' 1 1
        (setex (session_key ''u1'') 1800
          (stringify \<lparr>userId = ''u1'', serverId = ''A'', subdomain = ''session-0.ps.domain.com'',
             startTime = 0, maxDuration = 1800000\<rparr>) oneSlotLeft) = (Inr ses', r'') \<and>
      serverId ses' = ''A''"
    using t by fastforce
  show ?thesis using h 1 2 3 by blast
qed

text \<open>
  Claim C1 as the spec states it fails, already for two placements one after the other:
  server \<^verbatim>\<open>A\<close> has load 3 of 4, both \<^verbatim>\<open>u1\<close> and \<^verbatim>\<open>u2\<close> are assigned \<^verbatim>\<open>A\<close>, and the load
  still reads 3. There is no reservation of a slot, atomic or otherwise.
\<close>

theorem final_slot_taken_twice:
  "parsedLoad oneSlotLeft ''A'' = Some 3 \<and>
   map_sum id serverId (fst (assignSession None ''u1'' 0 0 oneSlotLeft)) = Inr ''A'' \<and>
   map_sum id serverId
     (fst (assignSession None ''u2'' 1 1 (snd (assignSession None ''u1'' 0 0 oneSlotLeft)))) = Inr ''A'' \<and>
   parsedLoad (snd (assignSession None ''u2'' 1 1 (snd (assignSession None ''u1'' 0 0 oneSlotLeft)))) ''A''
     = Some 3"
proof -
  have f: "findAvailableServer (snd (assignSession None ''u1'' 0 0 oneSlotLeft)) =
      Some \<lparr>id_server = ''A'', load = 3\<rparr>"
    by (simp add: assign_oneSlotLeft findAvailableServer_setex_session find_oneSlotLeft)
  show ?thesis
    by (simp add: assignSession_found [OF f] parsedLoad_setex_session)
       (simp add: assign_oneSlotLeft parsedLoad_setex_session parsedLoad_oneSlotLeft)
qed

subsection \<open>One session per user\<close>

text \<open>
  Claim C2, as amended. \<^verbatim>\<open>assignSession\<close> does not look at the sessions that are stored:
  whenever \<^verbatim>\<open>findAvailableServer\<close> finds a server the call succeeds with a new session
  on that server, whether or not the user already has one; a call fails only when no
  server is found; and the outcome of a call is the same on two states that differ only
  in a stored session record. There is no \<^verbatim>\<open>AlreadyActiveSessionError\<close> and no session
  status in the code.
\<close>

theorem assignSession_ignores_sessions:
  "(findAvailableServer r = Some s \<longrightarrow>
      fst (assignSession cns u t1 t2 r) =
        Inr \<lparr>userId = u, serverId = id_server s,
             subdomain = ''session-'' @ showInt t1 @ ''.ps.domain.com'',
             startTime = t2, maxDuration = 1800000\<rparr>) \<and>
   (fst (assignSession cns u t1 t2 r) = Inl e \<longrightarrow> findAvailableServer r = None) \<and>
   fst (assignSession None u t1 t2 (r\<lparr>strings := (strings r)(session_key v := x)\<rparr>)) =
     fst (assignSession None u t1 t2 r)"
proof (intro conjI impI)
  assume "findAvailableServer r = Some s"
  then show "fst (assignSession cns u t1 t2 r) =
        Inr \<lparr>userId = u, serverId = id_server s,
             subdomain = ''session-'' @ showInt t1 @ ''.ps.domain.com'',
             startTime = t2, maxDuration = 1800000\<rparr>"
    by (simp add: assignSession_found)
next
  assume "fst (assignSession cns u t1 t2 r) = Inl e"
  then show "findAvailableServer r = None" by (rule assignSession_Inl_unavailable)
next
  let ?r = "r\<lparr>strings := (strings r)(session_key v := x)\<rparr>"
  have f: "findAvailableServer ?r = findAvailableServer r"
    by (rule findAvailableServer_strings_session)
  show "fst (assignSession None u t1 t2 ?r) = fst (assignSession None u t1 t2 r)"
  proof (cases "findAvailableServer r")
    case None
    then show ?thesis using f by (simp add: assignSession_unavailable_None)
  next
    case (Some s)
    then have "findAvailableServer ?r = Some s" using f by simp
    then show ?thesis using Some by (simp add: assignSession_found)
  qed
qed

text \<open>
  At the registry where \<^verbatim>\<open>u1\<close> has a stored session and \<^verbatim>\<open>A\<close> has room, and at the full
  registry, where the call fails.
\<close>

theorem assignSession_ignores_sessions_witness:
  "findAvailableServer userPlaced = Some \<lparr>id_server = ''A'', load = 1\<rparr> \<and>
   fst (assignSession None ''u1'' 5 5 userPlaced) =
     Inr \<lparr>userId = ''u1'', serverId = ''A'', subdomain = ''session-5.ps.domain.com'',
          startTime = 5, maxDuration = 1800000\<rparr> \<and>
   fst (assignSession None ''u1'' 5 5 allFull) =
     Inl (TypeError ''this.createNewServer is not a function'') \<and>
   findAvailableServer allFull = None"
proof -
  have a: "fst (assignSession None ''u1'' 5 5 allFull) =
     Inl (TypeError ''this.createNewServer is not a function'')"
    by (simp add: assign_allFull_None)
  show ?thesis
    using assignSession_ignores_sessions [of userPlaced "\<lparr>id_server = ''A'', load = 1\<rparr>" None "''u1''" 5 5]
      assignSession_ignores_sessions [of allFull _ None "''u1''" 5 5
        "TypeError ''this.createNewServer is not a function''"]
      find_userPlaced a
    by (simp add: showInt_5)
qed

text \<open>
  Claim C2 as the spec states it fails: user \<^verbatim>\<open>u1\<close> has a stored session that has not
  expired, and a second \<^verbatim>\<open>assignSession\<close> for \<^verbatim>\<open>u1\<close> succeeds.
\<close>

theorem second_session_accepted:
  "strings userPlaced (session_key ''u1'') =
     Some (stringify \<lparr>userId = ''u1'', serverId = ''A'', subdomain = ''session-0.ps.domain.com'',
                      startTime = 0, maxDuration = 1800000\<rparr>, Some 1800) \<and>
   fst (assignSession None ''u1'' 5 5 userPlaced) =
     Inr \<lparr>userId = ''u1'', serverId = ''A'', subdomain = ''session-5.ps.domain.com'',
          startTime = 5, maxDuration = 1800000\<rparr>"
  by (simp add: assign_userPlaced) (simp add: userPlaced_def strings_setex)

subsection \<open>The stored record\<close>

text \<open>
  Claim C8, as amended. The record of a successful placement is stored under
  \<^verbatim>\<open>session:{userId}\<close> with a time to live of 1800 seconds, which is the session's
  \<^verbatim>\<open>maxDuration\<close> of 1800000 milliseconds: the time to live equals the maximum
  duration, and there is no grace period.
\<close>

theorem stored_ttl_is_maxDuration:
  "assignSession cns u t1 t2 r = (Inr ses, r') \<Longrightarrow>
   (\<exists>ttl. strings r' (session_key u) = Some (stringify ses, Some ttl) \<and> ttl = 1800 \<and>
      int ttl * 1000 = maxDuration ses)"
  using assignSession_Inr_state [of cns u t1 t2 r ses r'] by (simp add: strings_setex)

text \<open>
  The record that the placement of \<^verbatim>\<open>u1\<close> stores: 1800 seconds for 1800000 milliseconds.
\<close>

theorem stored_ttl_is_maxDuration_witness:
  "assignSession None ''u1'' 0 0 oneSlotLeft =
     (Inr \<lparr>userId = ''u1'', serverId = ''A'', subdomain = ''session-0.ps.domain.com'',
           startTime = 0, maxDuration = 1800000\<rparr>,
      setex (session_key ''u1'') 1800
        (stringify \<lparr>userId = ''u1'', serverId = ''A'', subdomain = ''session-0.ps.domain.com'',
           startTime = 0, maxDuration = 1800000\<rparr>) oneSlotLeft) \<and>
   (\<exists>ttl. strings (setex (session_key ''u1'') 1800
        (stringify \<lparr>userId = ''u1'', serverId = ''A'', subdomain = ''session-0.ps.domain.com'',
           startTime = 0, maxDuration = 1800000\<rparr>) oneSlotLeft) (session_key ''u1'') =
      Some (stringify \<lparr>userId = ''u1'', serverId = ''A'', subdomain = ''session-0.ps.domain.com'',
           startTime = 0, maxDuration = 1800000\<rparr>, Some ttl) \<and> ttl = 1800 \<and>
      int ttl * 1000 = 1800000)"
  using stored_ttl_is_maxDuration [OF assign_oneSlotLeft [of None]] assign_oneSlotLeft [of None]
  by simp

text \<open>
  Claim C8 as the spec states it fails: the stored time to live, in milliseconds, is
  exactly the \<^verbatim>\<open>maxDuration\<close> of the session, not greater.
\<close>

theorem ttl_has_no_grace:
  "int (the (snd (the (strings (snd (assignSession None ''u1'' 0 0 oneSlotLeft))
       (session_key ''u1''))))) * 1000 = 1800000 \<and>
   map_sum id maxDuration (fst (assignSession None ''u1'' 0 0 oneSlotLeft)) = Inr 1800000"
  by (simp add: assign_oneSlotLeft strings_setex)

text \<open>
  Claim C10. The record is stored under the key \<^verbatim>\<open>session:{userId}\<close>, and distinct users
  have distinct keys, so the store holds one record per user. After a successful
  placement a second \<^verbatim>\<open>assignSession\<close> for the same user succeeds as well, on the same
  server; the key then holds the record of the second session with a fresh time to live
  of 1800 seconds, and every other key, the load of the server assigned before among
  them, and the server set are as they were before the first call: nothing is released.
\<close>

theorem assignSession_overwrites:
  "assignSession c1 u a1 a2 r = (Inr s1, r1) \<Longrightarrow>
   strings r1 (session_key u) = Some (stringify s1, Some 1800) \<and>
   (\<exists>s2 r2. assignSession c2 u b1 b2 r1 = (Inr s2, r2) \<and>
      strings r2 (session_key u) = Some (stringify s2, Some 1800) \<and>
      serverId s2 = serverId s1 \<and> startTime s2 = b2 \<and>
      (\<forall>k. k \<noteq> session_key u \<longrightarrow> strings r2 k = strings r k) \<and>
      servers r2 = servers r) \<and>
   (\<forall>v. (session_key v = session_key u) = (v = u))"
proof -
  assume h: "assignSession c1 u a1 a2 r = (Inr s1, r1)"
  then obtain s where s: "findAvailableServer r = Some s" "serverId s1 = id_server s"
    using assignSession_Inr_found by blast
  from h have r1: "r1 = setex (session_key u) 1800 (stringify s1) r"
    by (simp add: assignSession_Inr_state)
  then have f: "findAvailableServer r1 = Some s"
    using s(1) by (simp add: findAvailableServer_setex_session)
  have 1: "strings r1 (session_key u) = Some (stringify s1, Some 1800)"
    using r1 by (simp add: strings_setex)
  let ?s2 = "\<lparr>userId = u, serverId = id_server s,
      subdomain = ''session-'' @ showInt b1 @ ''.ps.domain.com'',
      startTime = b2, maxDuration = 1800000\<rparr>"
  let ?r2 = "setex (session_key u) 1800 (stringify ?s2) r1"
  have a: "assignSession c2 u b1 b2 r1 = (Inr ?s2, ?r2)"
    by (rule assignSession_found [OF f])
  have b: "strings ?r2 (session_key u) = Some (stringify ?s2, Some 1800)"
    by (simp add: strings_setex)
  have c: "\<forall>k. k \<noteq> session_key u \<longrightarrow> strings ?r2 k = strings r k"
    unfolding r1 by (simp add: strings_setex)
  have d: "servers ?r2 = servers r"
    unfolding r1 by (simp add: servers_setex)
  have 2: "\<exists>s2 r2. assignSession c2 u b1 b2 r1 = (Inr s2, r2) \<and>
      strings r2 (session_key u) = Some (stringify s2, Some 1800) \<and>
      serverId s2 = serverId s1 \<and> startTime s2 = b2 \<and>
      (\<forall>k. k \<noteq> session_key u \<longrightarrow> strings r2 k = strings r k) \<and>
      servers r2 = servers r"
    by (intro exI [of _ ?s2] exI [of _ ?r2]) (use a b c d s(2) in simp)
  show ?thesis using 1 2 by (simp add: session_key_inj)
qed

text \<open>
  Two placements of \<^verbatim>\<open>u1\<close> on the server with one slot left: the second record replaces
  the first, and the load of \<^verbatim>\<open>A\<close> still reads 3.
\<close>

theorem assignSession_overwrites_witness:
  "assignSession None ''u1'' 0 0 oneSlotLeft =
     (Inr \<lparr>userId = ''u1'', serverId = ''A'', subdomain = ''session-0.ps.domain.com'',
           startTime = 0, maxDuration = 1800000\<rparr>,
      setex (session_key ''u1'') 1800
        (stringify \<lparr>userId = ''u1'', serverId = ''A'', subdomain = ''session-0.ps.domain.com'',
           startTime = 0, maxDuration = 1800000\<rparr>) oneSlotLeft) \<and>
   (\<exists>s2 r2. assignSession None ''u1'' 5 5
        (setex (session_key ''u1'') 1800
          (stringify \<lparr>userId = ''u1'', serverId = ''A'', subdomain = ''session-0.ps.domain.com'',
             startTime = 0, maxDuration = 1800000\<rparr>) oneSlotLeft) = (Inr s2, r2) \<and>
      strings r2 (session_key ''u1'') = Some (stringify s2, Some 1800) \<and>
      serverId s2 = ''A'' \<and> startTime s2 = 5 \<and>
      strings r2 (load_key ''A'') = Some (''3'', None))"
proof -
  note h = assign_oneSlotLeft [of None]
  have l: "strings oneSlotLeft (load_key ''A'') = Some (''3'', None)"
    by (simp add: oneSlotLeft_def)
  from assignSession_overwrites [OF h, of None 5 5]
  obtain s2 r2 where
    "assignSession None ''u1'' 5 5
        (setex (session_key ''u1'') 1800
          (stringify \<lparr>userId = ''u1'', serverId = ''A'', subdomain = ''session-0.ps.domain.com'',
             startTime = 0, maxDuration = 1800000\<rparr>) oneSlotLeft) = (Inr s2, r2)"
    "strings r2 (session_key ''u1'') = Some (stringify s2, Some 1800)"
    "serverId s2 = ''A''" "startTime s2 = 5"
    "\<forall>k. k \<noteq> session_key ''u1'' \<longrightarrow> strings r2 k = strings oneSlotLeft k"
    by auto
  moreover from this have "strings r2 (load_key ''A'') = Some (''3'', None)"
    using l by (simp add: load_key_neq_session_key)
  ultimately show ?thesis using h by blast
qed

subsection \<open>No server available\<close>

text \<open>
  Claim C6, as amended. When \<^verbatim>\<open>findAvailableServer\<close> finds a server, \<^verbatim>\<open>createNewServer\<close>
  plays no part in the call. When it finds none, \<^verbatim>\<open>assignSession\<close> enters the
  \<^verbatim>\<open>createNewServer\<close> branch on the state as it found it, and a failure of
  \<^verbatim>\<open>createNewServer\<close> is the failure of \<^verbatim>\<open>assignSession\<close>, passed on as it is, with
  nothing stored: the code has no \<^verbatim>\<open>CapacityExhaustedError\<close> and looks for a server only
  once.
\<close>

theorem assignSession_fallback:
  "(findAvailableServer r = Some s \<longrightarrow>
      assignSession cns u t1 t2 r = assignSession None u t1 t2 r) \<and>
   (findAvailableServer r = None \<and> f r = (Inl e, r1) \<longrightarrow>
      assignSession (Some f) u t1 t2 r = (Inl e, r1))"
  by (simp add: assignSession_found) (simp add: assignSession_def)

text \<open>
  With a server that has room, a \<^verbatim>\<open>createNewServer\<close> that would register \<^verbatim>\<open>B\<close> is not
  called; with a full server, the failure of provisioning is what the caller gets.
\<close>

theorem assignSession_fallback_witness:
  "findAvailableServer oneSlotLeft = Some \<lparr>id_server = ''A'', load = 3\<rparr> \<and>
   assignSession (Some provisionB) ''u1'' 0 0 oneSlotLeft = assignSession None ''u1'' 0 0 oneSlotLeft \<and>
   findAvailableServer allFull = None \<and>
   provisionUnavailable allFull = (Inl (Thrown ''provisioning unavailable''), allFull) \<and>
   assignSession (Some provisionUnavailable) ''u1'' 0 0 allFull =
     (Inl (Thrown ''provisioning unavailable''), allFull)"
  using assignSession_fallback [of oneSlotLeft "\<lparr>id_server = ''A'', load = 3\<rparr>" "Some provisionB" "''u1''" 0 0]
    assignSession_fallback [of allFull _ _ "''u1''" 0 0 provisionUnavailable
      "Thrown ''provisioning unavailable''" allFull]
    find_oneSlotLeft find_allFull
  by (simp add: provisionUnavailable_def)

text \<open>
  Claim C6 as the spec states it fails. With the only server full, the class as written
  raises a \<^verbatim>\<open>TypeError\<close>: it has no \<^verbatim>\<open>createNewServer\<close> to call. With a
  \<^verbatim>\<open>createNewServer\<close> that registers a server \<^verbatim>\<open>B\<close> with room, the call still raises a
  \<^verbatim>\<open>TypeError\<close>: afterwards \<^verbatim>\<open>findAvailableServer\<close> would find \<^verbatim>\<open>B\<close>, but placement is not
  tried again and no session is stored.
\<close>

theorem no_server_no_retry:
  "assignSession None ''u1'' 0 0 allFull =
     (Inl (TypeError ''this.createNewServer is not a function''), allFull) \<and>
   fst (assignSession (Some provisionB) ''u1'' 0 0 allFull) =
     Inl (TypeError ''Assignment to constant variable.'') \<and>
   findAvailableServer (snd (assignSession (Some provisionB) ''u1'' 0 0 allFull)) =
     Some \<lparr>id_server = ''B'', load = 0\<rparr> \<and>
   strings (snd (assignSession (Some provisionB) ''u1'' 0 0 allFull)) (session_key ''u1'') = None"
proof -
  have p: "assignSession (Some provisionB) ''u1'' 0 0 allFull =
      (Inl (TypeError ''Assignment to constant variable.''), snd (provisionB allFull))"
    by (simp add: assignSession_def find_allFull provisionB_def)
  have s: "strings (snd (provisionB allFull)) (session_key ''u1'') = None"
    using load_key_neq_session_key [of "''A''" "''u1''"] load_key_neq_session_key [of "''B''" "''u1''"]
    by (simp add: provisionB_def allFull_def)
  show ?thesis
    by (simp add: assign_allFull_None p find_after_provisionB s)
qed

subsection \<open>The cleanup of a session\<close>

text \<open>
  Claim C7, as amended. For a session whose timer is set at clock reading \<open>now2\<close>, a turn
  of the event loop before \<open>now2 + 1800000\<close> milliseconds changes nothing: the session
  is live and its timer pending. A turn at or after \<open>now2 + 1800000\<close> runs the cleanup,
  which calls \<^verbatim>\<open>closeSession\<close> and \<^verbatim>\<open>releaseResources\<close> in the same callback, and drops the
  timer, so that later turns do nothing more. There is no state between live and cleaned
  up, and nothing but the time since the timer was set triggers the cleanup: the code
  has no idle timeout and records no last activity.
\<close>

theorem cleanup_at_maxDuration:
  "timers L = [] \<Longrightarrow>
   (now < now2 + 1800000 \<longrightarrow>
      turn now (startLifecycle c rl now1 now2 L) = startLifecycle c rl now1 now2 L) \<and>
   (now2 + 1800000 \<le> now \<longrightarrow>
      world (turn now (startLifecycle c rl now1 now2 L)) = snd (cleanup c rl (newSession now1) (world L)) \<and>
      timers (turn now (startLifecycle c rl now1 now2 L)) = [] \<and>
      turn later (turn now (startLifecycle c rl now1 now2 L)) = turn now (startLifecycle c rl now1 now2 L))"
proof -
  assume e: "timers L = []"
  have m: "maxDuration' (newSession now1) = 1800000" by (simp add: newSession_def)
  have s: "startLifecycle c rl now1 now2 L =
      setTimeout (cleanup c rl (newSession now1)) 1800000 now2 L"
    by (simp add: startLifecycle_def Let_def m)
  show ?thesis
    unfolding s using turn_before_due [OF e] turn_when_due [OF e] by (simp add: turn_no_timers)
qed

text \<open>
  A session started at clock reading 0 with observers that record their calls: nothing
  has been called at 1799999 ms, both have at 1800000 ms.
\<close>

theorem cleanup_at_maxDuration_witness:
  "timers idleLoop = [] \<and>
   turn 1799999 (startLifecycle logClose logRelease 0 0 idleLoop) =
     startLifecycle logClose logRelease 0 0 idleLoop \<and>
   world (startLifecycle logClose logRelease 0 0 idleLoop) = [] \<and>
   world (turn 1800000 (startLifecycle logClose logRelease 0 0 idleLoop)) =
     [CloseSession (newSession 0), ReleaseResources (newSession 0)] \<and>
   timers (turn 1800000 (startLifecycle logClose logRelease 0 0 idleLoop)) = []"
proof -
  have e: "timers idleLoop = []" by (simp add: idleLoop_def)
  have w: "world (startLifecycle logClose logRelease 0 0 idleLoop) = []"
    by (simp add: startLifecycle_def setTimeout_def idleLoop_def Let_def)
  have w0: "world idleLoop = []" by (simp add: idleLoop_def)
  show ?thesis
    using cleanup_at_maxDuration [OF e, of 1799999 0 logClose logRelease 0]
      cleanup_at_maxDuration [OF e, of 1800000 0 logClose logRelease 0] e w
    by (simp add: cleanup_logged w0)
qed

text \<open>
  Claim C7 as the spec states it fails: at 1799999 ms nothing has happened to the
  session, and the one turn at 1800000 ms has closed it and released its resources.
  The session leaves the live state straight for the terminated one.
\<close>

theorem cleanup_skips_expiring:
  "world (turn 1799999 (startLifecycle logClose logRelease 0 0 idleLoop)) = [] \<and>
   world (turn 1800000 (startLifecycle logClose logRelease 0 0 idleLoop)) =
     [CloseSession (newSession 0), ReleaseResources (newSession 0)]"
proof -
  have e: "timers idleLoop = []" and w0: "world idleLoop = []" by (simp_all add: idleLoop_def)
  have s: "startLifecycle logClose logRelease 0 0 idleLoop =
      setTimeout (cleanup logClose logRelease (newSession 0)) 1800000 0 idleLoop"
    by (simp add: startLifecycle_def Let_def newSession_def)
  have a: "world (turn 1799999 (startLifecycle logClose logRelease 0 0 idleLoop)) = []"
    unfolding s by (simp add: turn_before_due [OF e]) (simp add: setTimeout_def w0)
  have b: "world (turn 1800000 (startLifecycle logClose logRelease 0 0 idleLoop)) =
     [CloseSession (newSession 0), ReleaseResources (newSession 0)]"
    unfolding s using turn_when_due [OF e, of 0 1800000 1800000] by (simp add: cleanup_logged w0)
  show ?thesis using a b by simp
qed

subsection \<open>Release of a slot\<close>

text \<open>
  Claim C5, on the release as the spec describes it. Releasing the slot of a terminated
  session a second time changes nothing: the session's flag is set by the first release
  and the second finds it set. The load of every server goes down by at most one over
  any number of releases for the session, and never up. The bare \<^verbatim>\<open>release(serverId)\<close> of
  the registry is not idempotent by itself (\<open>release_alone_decrements_twice\<close>); the flag
  is what makes the release of a session's slot so.
\<close>

theorem releaseSlot_idempotent:
  "releaseSlot (fst (releaseSlot ses reg)) (snd (releaseSlot ses reg)) = releaseSlot ses reg \<and>
   loadOf (snd (releaseSlot ses reg)) sid \<le> loadOf reg sid \<and>
   loadOf reg sid \<le> loadOf (snd (releaseSlot ses reg)) sid + 1 \<and>
   (slotReleased ses \<longrightarrow> releaseSlot ses reg = (ses, reg))"
  by (auto simp: releaseSlot_def release_def loadOf_def split: option.splits)

text \<open>
  A server at load 2: the first release for the session brings the load to 1 and sets
  the flag, the second leaves session and registry as they are.
\<close>

theorem releaseSlot_idempotent_witness:
  "loadOf registryA ''A'' = 2 \<and>
   loadOf (snd (releaseSlot sessionOnA registryA)) ''A'' = 1 \<and>
   slotReleased (fst (releaseSlot sessionOnA registryA)) \<and>
   releaseSlot (fst (releaseSlot sessionOnA registryA)) (snd (releaseSlot sessionOnA registryA)) =
     (fst (releaseSlot sessionOnA registryA), snd (releaseSlot sessionOnA registryA)) \<and>
   loadOf (snd (releaseSlot (fst (releaseSlot sessionOnA registryA))
     (snd (releaseSlot sessionOnA registryA)))) ''A'' = 1"
proof -
  have a: "loadOf registryA ''A'' = 2"
    by (simp add: loadOf_def registryA_def)
  have b: "loadOf (snd (releaseSlot sessionOnA registryA)) ''A'' = 1"
    by (simp add: releaseSlot_def release_def loadOf_def registryA_def sessionOnA_def)
  have c: "slotReleased (fst (releaseSlot sessionOnA registryA))"
    by (simp add: releaseSlot_def sessionOnA_def)
  show ?thesis
    using releaseSlot_idempotent [of "fst (releaseSlot sessionOnA registryA)"
        "snd (releaseSlot sessionOnA registryA)" "''A''"] a b c
    by simp
qed

end
